theory Spec2Isabelle
  imports Main "HOL-Library.Multiset"
begin

section \<open>ShotCounter: the team ledger of \<open>shotcounter.py\<close>\<close>

text \<open>
  The program keeps a list of teams in the file \<open>teams.json\<close>. Every request handler
  loads the whole list, works on it and, when it changed something, writes the whole
  list back. The handlers are modelled by explicit state passing: each takes the
  contents of the data file and returns its response together with the contents of
  the data file afterwards. An exception that no handler catches is a value of the
  model: the response with status 500.
\<close>

subsection \<open>Team records\<close>

text \<open>
  A team is the dictionary that \<open>api_add_team\<close> builds: the keys \<open>id\<close>, \<open>name\<close>,
  \<open>score\<close> and \<open>hidden\<close>, with a string, a string, an integer and a boolean. The
  handlers only ever write dictionaries of this shape, so the defaults of
  \<open>t.get("hidden", False)\<close>, \<open>t.get("score", 0)\<close> and \<open>t.get("name", "")\<close> are never
  taken and \<open>int(t.get("score", 0))\<close> is the stored score. The key \<open>id\<close> is the
  field \<open>team_id\<close> here, since \<open>id\<close> is the identity function of HOL. Python integers
  are unbounded, hence \<open>int\<close>.

  A string is a list of \<open>char\<close>, and a \<open>char\<close> is a code point from 0 to 255: the
  model covers the ids and names written in Latin-1. Every such string can be
  encoded as UTF-8.
\<close>

record team =
  team_id :: string
  name :: string
  score :: int
  hidden :: bool

subsection \<open>Integers as decimal text\<close>

text \<open>
  CPython refuses to convert between \<open>int\<close> and decimal text when the number has
  more than \<open>sys.get_int_max_str_digits()\<close> digits, 4300 unless the interpreter is
  configured otherwise: \<open>json.dump\<close> and \<open>json.load\<close> raise \<open>ValueError\<close> at such a
  number. The sign does not count as a digit.
\<close>

definition int_max_str_digits :: nat where
  "int_max_str_digits = 4300"

definition str_digits_ok :: "int \<Rightarrow> bool" where
  "str_digits_ok n \<longleftrightarrow> \<bar>n\<bar> < 10 ^ int_max_str_digits"

subsection \<open>The data file\<close>

text \<open>
  The exceptions that escape from \<open>load_teams\<close> and \<open>save_teams\<close>.
\<close>

datatype exn = UnicodeDecodeError | ValueError

text \<open>
  The data file, as far as \<open>load_teams\<close> can tell its states apart:
  \<^item> \<open>Missing\<close>: the file does not exist (\<open>os.path.exists\<close> is false);
  \<^item> \<open>Undecodable bytes\<close>: the bytes are not UTF-8, and reading them in
    \<open>json.load\<close> raises \<open>UnicodeDecodeError\<close>;
  \<^item> \<open>Malformed text\<close>: the file holds text that is not JSON, and \<open>json.load\<close>
    raises \<open>JSONDecodeError\<close>;
  \<^item> \<open>Teams ts\<close>: the file holds the JSON text of the list \<open>ts\<close> of teams;
  \<^item> \<open>Partial ts\<close>: the file holds what \<open>json.dump\<close> had written of the list
    \<open>ts\<close> when it raised: text that breaks off inside the list, which is not JSON.
  The undecodable and the malformed file keep their content, so that an unchanged file
  can be told from a rewritten one.
\<close>

datatype data_file =
    Missing
  | Undecodable string
  | Malformed string
  | Teams "team list"
  | Partial "team list"

text \<open>
  \<open>load_teams\<close> returns the empty list when the file does not exist, and catches
  \<open>JSONDecodeError\<close> only, again returning the empty list. \<open>UnicodeDecodeError\<close>,
  and the \<open>ValueError\<close> of an integer with too many digits, escape.
\<close>

definition load_teams :: "data_file \<Rightarrow> exn + team list" where
  "load_teams f =
     (case f of
        Missing \<Rightarrow> Inr []
      | Undecodable bytes \<Rightarrow> Inl UnicodeDecodeError
      | Malformed text \<Rightarrow> Inr []
      | Teams ts \<Rightarrow> if list_all (\<lambda>t. str_digits_ok (score t)) ts then Inr ts else Inl ValueError
      | Partial ts \<Rightarrow> Inr [])"

text \<open>
  \<open>save_teams\<close> opens the file for writing, which empties it, and dumps the list into
  it piece by piece. When a score has too many digits \<open>json.dump\<close> raises
  \<open>ValueError\<close> there, and the file is closed with the pieces written so far.
\<close>

definition save_teams :: "team list \<Rightarrow> (exn + unit) \<times> data_file" where
  "save_teams teams =
     (if list_all (\<lambda>t. str_digits_ok (score t)) teams then (Inr (), Teams teams)
      else (Inl ValueError, Partial teams))"

subsection \<open>The string methods used by the handlers\<close>

text \<open>
  \<open>str.strip()\<close> removes the whitespace characters at both ends. Among the code
  points below 256 these are 9 to 13, 28 to 32, 133 and 160. \<open>str.lower()\<close> maps
  the upper case letters to lower case: among the code points below 256 these are
  65 to 90 and 192 to 222 without 215, each mapped to the code point 32 above it.
\<close>

definition isspace :: "char \<Rightarrow> bool" where
  "isspace c =
     (let n = (of_char c :: nat)
      in (9 \<le> n \<and> n \<le> 13) \<or> (28 \<le> n \<and> n \<le> 32) \<or> n = 133 \<or> n = 160)"

definition strip :: "string \<Rightarrow> string" where
  "strip s = rev (dropWhile isspace (rev (dropWhile isspace s)))"

definition lower_char :: "char \<Rightarrow> char" where
  "lower_char c =
     (let n = (of_char c :: nat)
      in if (65 \<le> n \<and> n \<le> 90) \<or> (192 \<le> n \<and> n \<le> 214) \<or> (216 \<le> n \<and> n \<le> 222)
         then char_of (n + 32) else c)"

definition lower :: "string \<Rightarrow> string" where
  "lower s = map lower_char s"

subsection \<open>Responses\<close>

text \<open>
  The error responses: one constructor for each message that a handler returns,
  and \<open>InternalServerError\<close> for the response that Flask makes of an exception
  escaping from a handler. In the words of the specification, \<open>TeamNameRequired\<close>
  ("Team name is required") is its validation error, \<open>TeamAlreadyExists\<close> ("Team
  already exists") its conflict error and \<open>TeamNotFound\<close> ("Team not found") its
  not-found error; \<open>InvalidDelta\<close> ("Invalid delta") and \<open>MissingTeamId\<close> ("Missing
  team id") are the two rejections of a malformed score request.
\<close>

datatype error =
    TeamNameRequired
  | TeamAlreadyExists
  | InvalidDelta
  | MissingTeamId
  | TeamNotFound
  | InternalServerError exn

fun status :: "error \<Rightarrow> nat" where
  "status TeamNameRequired = 400"
| "status TeamAlreadyExists = 400"
| "status InvalidDelta = 400"
| "status MissingTeamId = 400"
| "status TeamNotFound = 404"
| "status (InternalServerError e) = 500"

subsection \<open>\<open>GET /api/teams\<close>\<close>

text \<open>
  \<open>list.sort(key=..., reverse=True)\<close> is a stable sort into descending order of the
  key: elements with equal keys keep their order. \<open>sort_key\<close> is a stable sort into
  ascending order, so the key is negated.
\<close>

definition api_get_teams :: "data_file \<Rightarrow> (error + team list) \<times> data_file" where
  "api_get_teams f =
     (case load_teams f of
        Inl e \<Rightarrow> (Inl (InternalServerError e), f)
      | Inr teams \<Rightarrow>
          (let visible = filter (\<lambda>t. \<not> hidden t) teams
           in (Inr (sort_key (\<lambda>t. - score t) visible), f)))"

subsection \<open>\<open>POST /api/team\<close>\<close>

text \<open>The loop that looks for a visible team of the same name, ignoring case.\<close>

fun name_exists :: "string \<Rightarrow> team list \<Rightarrow> bool" where
  "name_exists nm [] = False"
| "name_exists nm (t # ts) =
     (if \<not> hidden t \<and> lower (name t) = lower nm then True else name_exists nm ts)"

text \<open>
  \<open>uuid4\<close> is the string that \<open>str(uuid.uuid4())\<close> returns in this call, and
  \<open>data_name\<close> is \<open>data.get("name")\<close>: \<open>None\<close> when the body has no name. The handler
  does not compare the new id with the ids of the teams it loaded.
\<close>

definition api_add_team :: "string \<Rightarrow> string option \<Rightarrow> data_file \<Rightarrow> (error + team) \<times> data_file" where
  "api_add_team uuid4 data_name f =
     (let nm = strip (case data_name of None \<Rightarrow> [] | Some s \<Rightarrow> s) in
      if nm = [] then (Inl TeamNameRequired, f)
      else
        (case load_teams f of
           Inl e \<Rightarrow> (Inl (InternalServerError e), f)
         | Inr teams \<Rightarrow>
             (if name_exists nm teams then (Inl TeamAlreadyExists, f)
              else
                (let team = \<lparr>team_id = uuid4, name = nm, score = 0, hidden = False\<rparr>
                 in (case save_teams (teams @ [team]) of
                       (Inl e, f') \<Rightarrow> (Inl (InternalServerError e), f')
                     | (Inr u, f') \<Rightarrow> (Inr team, f'))))))"

subsection \<open>\<open>POST /api/score\<close>\<close>

text \<open>
  The loop over the teams: the first visible team with the id gets the new score and
  the loop stops. The result is the flag \<open>found\<close> and the list after the loop.
\<close>

fun change_score_loop :: "string \<Rightarrow> int \<Rightarrow> team list \<Rightarrow> bool \<times> team list" where
  "change_score_loop tid delta [] = (False, [])"
| "change_score_loop tid delta (t # ts) =
     (if team_id t = tid \<and> \<not> hidden t
      then (True, t\<lparr>score := max 0 (score t + delta)\<rparr> # ts)
      else (let (found, ts') = change_score_loop tid delta ts in (found, t # ts')))"

text \<open>
  \<open>data_id\<close> is \<open>data.get("id")\<close>, and \<open>data_delta\<close> is the outcome of
  \<open>int(data.get("delta"))\<close>: \<open>None\<close> when the conversion raises \<open>TypeError\<close> or
  \<open>ValueError\<close>.
\<close>

definition api_change_score :: "string option \<Rightarrow> int option \<Rightarrow> data_file \<Rightarrow> (error + unit) \<times> data_file" where
  "api_change_score data_id data_delta f =
     (case data_delta of
        None \<Rightarrow> (Inl InvalidDelta, f)
      | Some delta \<Rightarrow>
          (case data_id of
             None \<Rightarrow> (Inl MissingTeamId, f)
           | Some tid \<Rightarrow>
               if tid = [] then (Inl MissingTeamId, f)
               else
                 (case load_teams f of
                    Inl e \<Rightarrow> (Inl (InternalServerError e), f)
                  | Inr loaded \<Rightarrow>
                      (let (found, teams) = change_score_loop tid delta loaded in
                       if \<not> found then (Inl TeamNotFound, f)
                       else (case save_teams teams of
                               (Inl e, f') \<Rightarrow> (Inl (InternalServerError e), f')
                             | (Inr u, f') \<Rightarrow> (Inr (), f'))))))"

subsection \<open>\<open>POST /api/team/<team_id>/hide\<close>\<close>

text \<open>The loop over the teams: the first team with the id, hidden or not, is hidden.\<close>

fun hide_loop :: "string \<Rightarrow> team list \<Rightarrow> bool \<times> team list" where
  "hide_loop tid [] = (False, [])"
| "hide_loop tid (t # ts) =
     (if team_id t = tid
      then (True, t\<lparr>hidden := True\<rparr> # ts)
      else (let (found, ts') = hide_loop tid ts in (found, t # ts')))"

definition api_hide_team :: "string \<Rightarrow> data_file \<Rightarrow> (error + unit) \<times> data_file" where
  "api_hide_team tid f =
     (case load_teams f of
        Inl e \<Rightarrow> (Inl (InternalServerError e), f)
      | Inr loaded \<Rightarrow>
          (let (found, teams) = hide_loop tid loaded in
           if \<not> found then (Inl TeamNotFound, f)
           else (case save_teams teams of
                   (Inl e, f') \<Rightarrow> (Inl (InternalServerError e), f')
                 | (Inr u, f') \<Rightarrow> (Inr (), f'))))"

subsection \<open>Sequences of requests\<close>

text \<open>
  The handlers run one at a time: each holds \<open>data_lock\<close> from its \<open>load_teams\<close> to
  its \<open>save_teams\<close>. A history of the server is therefore a list of requests, each
  applied to the data file that the one before left behind.
\<close>

datatype request =
    GetTeams
  | AddTeam string "string option"
  | ChangeScore "string option" "int option"
  | HideTeam string

fun handle :: "request \<Rightarrow> data_file \<Rightarrow> data_file" where
  "handle GetTeams f = snd (api_get_teams f)"
| "handle (AddTeam uuid4 data_name) f = snd (api_add_team uuid4 data_name f)"
| "handle (ChangeScore data_id data_delta) f = snd (api_change_score data_id data_delta f)"
| "handle (HideTeam tid) f = snd (api_hide_team tid f)"

fun run :: "request list \<Rightarrow> data_file \<Rightarrow> data_file" where
  "run [] f = f"
| "run (r # rs) f = run rs (handle r f)"


text \<open>
  A run of score changes for one team: the responses, in order, and the data file
  after the last of them.
\<close>

fun change_scores :: "string \<Rightarrow> int list \<Rightarrow> data_file \<Rightarrow> (error + unit) list \<times> data_file" where
  "change_scores tid [] f = ([], f)"
| "change_scores tid (delta # deltas) f =
     (let (r, f') = api_change_score (Some tid) (Some delta) f;
          (rs, f'') = change_scores tid deltas f'
      in (r # rs, f''))"

subsection \<open>The invariants of the ledger\<close>

text \<open>
  Ids are unique over all teams; the names of the visible teams are unique up to
  case; no score is negative.
\<close>

definition ids_unique :: "team list \<Rightarrow> bool" where
  "ids_unique ts \<longleftrightarrow> distinct (map team_id ts)"




section \<open>The string methods at the borders of their ranges\<close>

text \<open>
  The whitespace of \<open>str.strip()\<close> and the upper case letters of \<open>str.lower()\<close>
  among the code points below 256, checked at each border.
\<close>

lemma isspace_borders:
  "\<not> isspace (CHR 0x08)" "isspace (CHR 0x09)" "isspace (CHR 0x0D)" "\<not> isspace (CHR 0x0E)"
  "\<not> isspace (CHR 0x1B)" "isspace (CHR 0x1C)" "isspace (CHR 0x20)" "\<not> isspace (CHR 0x21)"
  "\<not> isspace (CHR 0x84)" "isspace (CHR 0x85)" "\<not> isspace (CHR 0x86)"
  "\<not> isspace (CHR 0x9F)" "isspace (CHR 0xA0)" "\<not> isspace (CHR 0xA1)"
  by code_simp+

lemma lower_char_borders:
  "lower_char (CHR 0x40) = CHR 0x40" "lower_char (CHR 0x41) = CHR 0x61"
  "lower_char (CHR 0x5A) = CHR 0x7A" "lower_char (CHR 0x5B) = CHR 0x5B"
  "lower_char (CHR 0x61) = CHR 0x61" "lower_char (CHR 0xBF) = CHR 0xBF"
  "lower_char (CHR 0xC0) = CHR 0xE0" "lower_char (CHR 0xD6) = CHR 0xF6"
  "lower_char (CHR 0xD7) = CHR 0xD7" "lower_char (CHR 0xD8) = CHR 0xF8"
  "lower_char (CHR 0xDE) = CHR 0xFE" "lower_char (CHR 0xDF) = CHR 0xDF"
  "lower_char (CHR 0xE0) = CHR 0xE0" "lower_char (CHR 0xFF) = CHR 0xFF"
  by code_simp+

lemma strip_inner_whitespace:
  "strip [CHR 0xA0, CHR ''a'', CHR 0x20, CHR 0x85, CHR ''b'', CHR 0x0A] = [CHR ''a'', CHR 0x20, CHR 0x85, CHR ''b'']"
  by code_simp

lemma lower_idem: "lower (lower s) = lower s"
proof -
  have "lower_char (lower_char c) = lower_char c" for c
  proof -
    have "of_char c < (256 :: nat)" by simp
    then have "(of_char (char_of (of_char c + 32 :: nat)) :: nat) = of_char c + 32"
      if "of_char c \<le> (222 :: nat)"
      using that by simp
    then show ?thesis
      by (auto simp: lower_char_def Let_def)
  qed
  then show ?thesis by (simp add: lower_def)
qed

section \<open>Decimal text, loading and saving\<close>

lemma small_below_limit: "(10000 :: int) \<le> 10 ^ int_max_str_digits"
proof -
  have "(10 :: int) ^ 4 \<le> 10 ^ int_max_str_digits"
    by (rule power_increasing) (simp_all add: int_max_str_digits_def)
  then show ?thesis by simp
qed

lemma str_digits_ok_small [simp]: "\<bar>n\<bar> < 10000 \<Longrightarrow> str_digits_ok n"
  using small_below_limit by (simp add: str_digits_ok_def)

lemma str_digits_ok_limit [simp]: "\<not> str_digits_ok (10 ^ int_max_str_digits)"
  by (simp add: str_digits_ok_def)

lemma load_teams_scores:
  "load_teams f = Inr ts \<Longrightarrow> list_all (\<lambda>t. str_digits_ok (score t)) ts"
  by (cases f) (simp_all add: load_teams_def split: if_splits)

lemma load_teams_Teams:
  "list_all (\<lambda>t. str_digits_ok (score t)) ts \<Longrightarrow> load_teams (Teams ts) = Inr ts"
  by (simp add: load_teams_def)

lemma save_teams_ok:
  "list_all (\<lambda>t. str_digits_ok (score t)) ts \<Longrightarrow> save_teams ts = (Inr (), Teams ts)"
  by (simp add: save_teams_def)

lemma save_teams_raises:
  "\<not> list_all (\<lambda>t. str_digits_ok (score t)) ts \<Longrightarrow> save_teams ts = (Inl ValueError, Partial ts)"
  by (simp add: save_teams_def)

section \<open>Properties of the loops\<close>


lemma snd_hide_loop_Cons:
  "snd (hide_loop tid (t # ts)) =
     (if team_id t = tid then t\<lparr>hidden := True\<rparr> # ts else t # snd (hide_loop tid ts))"
  by (simp split: prod.splits)

lemma change_score_loop_found:
  "fst (change_score_loop tid delta ts) \<longleftrightarrow> (\<exists>t \<in> set ts. team_id t = tid \<and> \<not> hidden t)"
  by (induction ts) (auto split: prod.splits)

lemma change_score_loop_not_found:
  "\<not> fst (change_score_loop tid delta ts) \<Longrightarrow> snd (change_score_loop tid delta ts) = ts"
  by (induction ts) (auto split: prod.splits if_splits)

text \<open>
  When the loop finds the team, the list after it is the list before it with one
  position updated: the first visible team with the id.
\<close>

lemma change_score_loop_update:
  "fst (change_score_loop tid delta ts) \<Longrightarrow>
   \<exists>i < length ts. team_id (ts ! i) = tid \<and> \<not> hidden (ts ! i) \<and>
     (\<forall>j < i. \<not> (team_id (ts ! j) = tid \<and> \<not> hidden (ts ! j))) \<and>
     snd (change_score_loop tid delta ts) = ts[i := (ts ! i)\<lparr>score := max 0 (score (ts ! i) + delta)\<rparr>]"
proof (induction ts)
  case Nil
  then show ?case by simp
next
  case (Cons t ts)
  show ?case
  proof (cases "team_id t = tid \<and> \<not> hidden t")
    case True
    then show ?thesis by (intro exI [of _ 0]) simp
  next
    case False
    with Cons.prems have "fst (change_score_loop tid delta ts)"
      by (auto split: prod.splits)
    from Cons.IH [OF this] obtain i where i: "i < length ts" "team_id (ts ! i) = tid" "\<not> hidden (ts ! i)"
      "\<forall>j < i. \<not> (team_id (ts ! j) = tid \<and> \<not> hidden (ts ! j))"
      "snd (change_score_loop tid delta ts) = ts[i := (ts ! i)\<lparr>score := max 0 (score (ts ! i) + delta)\<rparr>]"
      by blast
    have "\<forall>j < Suc i. \<not> (team_id ((t # ts) ! j) = tid \<and> \<not> hidden ((t # ts) ! j))"
      using False i(4) by (auto simp: nth_Cons split: nat.splits)
    with False i show ?thesis
      by (intro exI [of _ "Suc i"]) (auto split: prod.splits)
  qed
qed




lemma hide_loop_found:
  "fst (hide_loop tid ts) \<longleftrightarrow> tid \<in> set (map team_id ts)"
  by (induction ts) (auto split: prod.splits)

lemma hide_loop_not_found:
  "\<not> fst (hide_loop tid ts) \<Longrightarrow> snd (hide_loop tid ts) = ts"
  by (induction ts) (auto split: prod.splits if_splits)

lemma hide_loop_update:
  "fst (hide_loop tid ts) \<Longrightarrow>
   \<exists>i < length ts. team_id (ts ! i) = tid \<and>
     (\<forall>j < i. team_id (ts ! j) \<noteq> tid) \<and>
     snd (hide_loop tid ts) = ts[i := (ts ! i)\<lparr>hidden := True\<rparr>]"
proof (induction ts)
  case Nil
  then show ?case by simp
next
  case (Cons t ts)
  show ?case
  proof (cases "team_id t = tid")
    case True
    then show ?thesis by (intro exI [of _ 0]) simp
  next
    case False
    with Cons.prems have "fst (hide_loop tid ts)"
      by (auto split: prod.splits)
    from Cons.IH [OF this] obtain i where i: "i < length ts" "team_id (ts ! i) = tid"
      "\<forall>j < i. team_id (ts ! j) \<noteq> tid"
      "snd (hide_loop tid ts) = ts[i := (ts ! i)\<lparr>hidden := True\<rparr>]"
      by blast
    have "\<forall>j < Suc i. team_id ((t # ts) ! j) \<noteq> tid"
      using False i(3) by (auto simp: nth_Cons split: nat.splits)
    with False i show ?thesis
      by (intro exI [of _ "Suc i"]) (auto split: prod.splits)
  qed
qed

lemma hide_loop_again:
  "hide_loop tid (snd (hide_loop tid ts)) = (fst (hide_loop tid ts), snd (hide_loop tid ts))"
  by (induction ts) (auto split: prod.splits)


lemma hide_loop_scores:
  "map score (snd (hide_loop tid ts)) = map score ts"
  by (induction ts) (simp_all add: snd_hide_loop_Cons del: hide_loop.simps(2))

lemma hide_loop_digits:
  "list_all (\<lambda>t. str_digits_ok (score t)) ts \<Longrightarrow>
   list_all (\<lambda>t. str_digits_ok (score t)) (snd (hide_loop tid ts))"
proof -
  have "list_all (\<lambda>t. str_digits_ok (score t)) us \<longleftrightarrow> list_all str_digits_ok (map score us)"
    for us :: "team list"
    by (simp add: list_all_iff)
  then show "list_all (\<lambda>t. str_digits_ok (score t)) ts \<Longrightarrow>
      list_all (\<lambda>t. str_digits_ok (score t)) (snd (hide_loop tid ts))"
    by (simp add: hide_loop_scores)
qed




section \<open>The handlers on a data file that loads\<close>

lemma api_get_teams_loaded:
  "load_teams f = Inr ts \<Longrightarrow>
   api_get_teams f = (Inr (sort_key (\<lambda>t. - score t) (filter (\<lambda>t. \<not> hidden t) ts)), f)"
  by (simp add: api_get_teams_def)

lemma api_add_team_loaded:
  assumes "strip nm \<noteq> []" and "load_teams f = Inr ts"
  shows "api_add_team uuid4 (Some nm) f =
     (if name_exists (strip nm) ts then (Inl TeamAlreadyExists, f)
      else (Inr \<lparr>team_id = uuid4, name = strip nm, score = 0, hidden = False\<rparr>,
            Teams (ts @ [\<lparr>team_id = uuid4, name = strip nm, score = 0, hidden = False\<rparr>])))"
proof -
  let ?team = "\<lparr>team_id = uuid4, name = strip nm, score = 0, hidden = False\<rparr>"
  from assms(2) have "list_all (\<lambda>t. str_digits_ok (score t)) (ts @ [?team])"
    by (simp add: load_teams_scores)
  then have "save_teams (ts @ [?team]) = (Inr (), Teams (ts @ [?team]))"
    by (rule save_teams_ok)
  with assms show ?thesis
    by (simp add: api_add_team_def Let_def)
qed

lemma api_change_score_loaded:
  assumes "tid \<noteq> []" and "load_teams f = Inr ts"
  shows "api_change_score (Some tid) (Some delta) f =
     (if \<not> fst (change_score_loop tid delta ts) then (Inl TeamNotFound, f)
      else if list_all (\<lambda>t. str_digits_ok (score t)) (snd (change_score_loop tid delta ts))
        then (Inr (), Teams (snd (change_score_loop tid delta ts)))
      else (Inl (InternalServerError ValueError), Partial (snd (change_score_loop tid delta ts))))"
  using assms
  by (simp add: api_change_score_def save_teams_def case_prod_unfold)

lemma api_hide_team_loaded:
  assumes "load_teams f = Inr ts"
  shows "api_hide_team tid f =
     (if \<not> fst (hide_loop tid ts) then (Inl TeamNotFound, f)
      else (Inr (), Teams (snd (hide_loop tid ts))))"
proof -
  from assms have "list_all (\<lambda>t. str_digits_ok (score t)) (snd (hide_loop tid ts))"
    by (simp add: load_teams_scores hide_loop_digits)
  then have "save_teams (snd (hide_loop tid ts)) = (Inr (), Teams (snd (hide_loop tid ts)))"
    by (rule save_teams_ok)
  with assms show ?thesis
    by (simp add: api_hide_team_def case_prod_unfold)
qed

text \<open>When \<open>load_teams\<close> raises, the handler answers with status 500 and the file stays.\<close>

lemma handlers_load_raises:
  assumes "load_teams f = Inl x"
  shows "api_get_teams f = (Inl (InternalServerError x), f)"
    and "strip nm \<noteq> [] \<Longrightarrow> api_add_team uuid4 (Some nm) f = (Inl (InternalServerError x), f)"
    and "tid \<noteq> [] \<Longrightarrow> api_change_score (Some tid) (Some delta) f = (Inl (InternalServerError x), f)"
    and "api_hide_team tid f = (Inl (InternalServerError x), f)"
  using assms
  by (simp_all add: api_get_teams_def api_add_team_def api_change_score_def api_hide_team_def)

lemma list_all_update:
  "list_all P xs \<Longrightarrow> P x \<Longrightarrow> list_all P (xs[i := x])"
  using set_update_subset_insert [of xs i x] by (auto simp: list_all_iff)

section \<open>The handlers\<close>

subsection \<open>Listing the visible teams\<close>

text \<open>
  C7. On a data file that loads, \<open>api_get_teams\<close> returns exactly the teams that are
  not hidden (each as often as the ledger holds it), in descending order of score;
  teams of equal score are in the order in which the ledger stores them. On a data
  file that does not load the exception escapes. The data file is left as it was
  in each case, so that a second call returns the same.
\<close>

theorem api_get_teams_visible_sorted:
  "(load_teams f = Inr ts \<longrightarrow>
      (\<exists>result. fst (api_get_teams f) = Inr result \<and>
         mset result = mset (filter (\<lambda>t. \<not> hidden t) ts) \<and>
         sorted_wrt (\<lambda>a b. score b \<le> score a) result \<and>
         (\<forall>k. filter (\<lambda>t. score t = k) result =
              filter (\<lambda>t. score t = k) (filter (\<lambda>t. \<not> hidden t) ts)))) \<and>
   (load_teams f = Inl x \<longrightarrow> fst (api_get_teams f) = Inl (InternalServerError x)) \<and>
   snd (api_get_teams f) = f \<and>
   api_get_teams (snd (api_get_teams f)) = api_get_teams f"
proof -
  have loaded: "\<exists>result. fst (api_get_teams f) = Inr result \<and>
         mset result = mset (filter (\<lambda>t. \<not> hidden t) ts) \<and>
         sorted_wrt (\<lambda>a b. score b \<le> score a) result \<and>
         (\<forall>k. filter (\<lambda>t. score t = k) result =
              filter (\<lambda>t. score t = k) (filter (\<lambda>t. \<not> hidden t) ts))"
    if load: "load_teams f = Inr ts"
  proof -
    let ?visible = "filter (\<lambda>t. \<not> hidden t) ts"
    let ?result = "sort_key (\<lambda>t. - score t) ?visible"
    have res: "fst (api_get_teams f) = Inr ?result"
      using load by (simp add: api_get_teams_loaded)
    have "sorted (map (\<lambda>t. - score t) ?result)"
      by (rule sorted_sort_key)
    then have desc: "sorted_wrt (\<lambda>a b. score b \<le> score a) ?result"
      by (simp add: sorted_map)
    have stable: "filter (\<lambda>t. score t = k) ?result = filter (\<lambda>t. score t = k) ?visible" for k
      using sort_key_stable [of "\<lambda>t. - score t" "- k" ?visible] by simp
    from res desc stable show ?thesis by simp
  qed
  have raised: "fst (api_get_teams f) = Inl (InternalServerError x)" if "load_teams f = Inl x"
    using that by (simp add: handlers_load_raises)
  have same: "snd (api_get_teams f) = f"
    by (simp add: api_get_teams_def split: sum.splits)
  from loaded raised same show ?thesis by simp
qed

text \<open>The scores 5, 20, 5 of the specification, with a hidden team in between.\<close>

theorem api_get_teams_visible_sorted_witness:
  "load_teams (Teams
     [\<lparr>team_id = ''a1'', name = ''Alpha'', score = 5, hidden = False\<rparr>,
      \<lparr>team_id = ''b2'', name = ''Beta'', score = 20, hidden = False\<rparr>,
      \<lparr>team_id = ''c3'', name = ''Gamma'', score = 30, hidden = True\<rparr>,
      \<lparr>team_id = ''d4'', name = ''Delta'', score = 5, hidden = False\<rparr>]) =
     Inr [\<lparr>team_id = ''a1'', name = ''Alpha'', score = 5, hidden = False\<rparr>,
      \<lparr>team_id = ''b2'', name = ''Beta'', score = 20, hidden = False\<rparr>,
      \<lparr>team_id = ''c3'', name = ''Gamma'', score = 30, hidden = True\<rparr>,
      \<lparr>team_id = ''d4'', name = ''Delta'', score = 5, hidden = False\<rparr>] \<and>
   fst (api_get_teams (Teams
     [\<lparr>team_id = ''a1'', name = ''Alpha'', score = 5, hidden = False\<rparr>,
      \<lparr>team_id = ''b2'', name = ''Beta'', score = 20, hidden = False\<rparr>,
      \<lparr>team_id = ''c3'', name = ''Gamma'', score = 30, hidden = True\<rparr>,
      \<lparr>team_id = ''d4'', name = ''Delta'', score = 5, hidden = False\<rparr>])) =
     Inr [\<lparr>team_id = ''b2'', name = ''Beta'', score = 20, hidden = False\<rparr>,
      \<lparr>team_id = ''a1'', name = ''Alpha'', score = 5, hidden = False\<rparr>,
      \<lparr>team_id = ''d4'', name = ''Delta'', score = 5, hidden = False\<rparr>] \<and>
   sorted_wrt (\<lambda>a b. score b \<le> score a)
     [\<lparr>team_id = ''b2'', name = ''Beta'', score = 20, hidden = False\<rparr>,
      \<lparr>team_id = ''a1'', name = ''Alpha'', score = 5, hidden = False\<rparr>,
      \<lparr>team_id = ''d4'', name = ''Delta'', score = 5, hidden = False\<rparr>] \<and>
   load_teams (Undecodable [CHR 0xFF, CHR 0xFE]) = Inl UnicodeDecodeError \<and>
   fst (api_get_teams (Undecodable [CHR 0xFF, CHR 0xFE])) = Inl (InternalServerError UnicodeDecodeError)"
proof -
  let ?ts = "[\<lparr>team_id = ''a1'', name = ''Alpha'', score = 5, hidden = False\<rparr>,
      \<lparr>team_id = ''b2'', name = ''Beta'', score = 20, hidden = False\<rparr>,
      \<lparr>team_id = ''c3'', name = ''Gamma'', score = 30, hidden = True\<rparr>,
      \<lparr>team_id = ''d4'', name = ''Delta'', score = 5, hidden = False\<rparr>]"
  let ?sorted = "[\<lparr>team_id = ''b2'', name = ''Beta'', score = 20, hidden = False\<rparr>,
      \<lparr>team_id = ''a1'', name = ''Alpha'', score = 5, hidden = False\<rparr>,
      \<lparr>team_id = ''d4'', name = ''Delta'', score = 5, hidden = False\<rparr>]"
  have load: "load_teams (Teams ?ts) = Inr ?ts"
    by (simp add: load_teams_def)
  have res: "fst (api_get_teams (Teams ?ts)) = Inr ?sorted"
    using load by (simp add: api_get_teams_loaded)
  from api_get_teams_visible_sorted [of "Teams ?ts" ?ts] load
  obtain result where "fst (api_get_teams (Teams ?ts)) = Inr result"
    and "sorted_wrt (\<lambda>a b. score b \<le> score a) result"
    by blast
  with res have desc: "sorted_wrt (\<lambda>a b. score b \<le> score a) ?sorted"
    by simp
  have raise: "load_teams (Undecodable [CHR 0xFF, CHR 0xFE]) = Inl UnicodeDecodeError"
    by (simp add: load_teams_def)
  from api_get_teams_visible_sorted [of "Undecodable [CHR 0xFF, CHR 0xFE]" _ UnicodeDecodeError] raise
  have "fst (api_get_teams (Undecodable [CHR 0xFF, CHR 0xFE])) = Inl (InternalServerError UnicodeDecodeError)"
    by blast
  with load res desc raise show ?thesis by blast
qed

subsection \<open>Adding a team\<close>




subsection \<open>Changing a score\<close>

text \<open>
  C4, as the code has it. A request whose id is missing or is the empty string is
  rejected with "Missing team id" before the ledger is read. For every other id and
  every delta, on a data file that loads: when no visible team has the id (none at
  all, or only hidden ones) the answer is "Team not found" and the data file stays
  as it is; otherwise the first visible team with the id is the one to get the score
  \<open>max 0 (score + delta)\<close>, and when that score has no more digits than
  \<open>json.dump\<close> can write, the handler reports success and the whole list is
  written.
\<close>

theorem api_change_score_result:
  "api_change_score None (Some delta) f = (Inl MissingTeamId, f) \<and>
   api_change_score (Some []) (Some delta) f = (Inl MissingTeamId, f) \<and>
   (tid \<noteq> [] \<and> load_teams f = Inr ts \<longrightarrow>
     (\<not> (\<exists>t \<in> set ts. team_id t = tid \<and> \<not> hidden t) \<longrightarrow>
        api_change_score (Some tid) (Some delta) f = (Inl TeamNotFound, f)) \<and>
     ((\<exists>t \<in> set ts. team_id t = tid \<and> \<not> hidden t) \<longrightarrow>
        (\<exists>i < length ts.
           team_id (ts ! i) = tid \<and> \<not> hidden (ts ! i) \<and>
           (\<forall>j < i. \<not> (team_id (ts ! j) = tid \<and> \<not> hidden (ts ! j))) \<and>
           (str_digits_ok (max 0 (score (ts ! i) + delta)) \<longrightarrow>
              api_change_score (Some tid) (Some delta) f =
                (Inr (), Teams (ts[i := (ts ! i)\<lparr>score := max 0 (score (ts ! i) + delta)\<rparr>]))))))"
proof -
  have empty: "api_change_score None (Some delta) f = (Inl MissingTeamId, f)"
    "api_change_score (Some []) (Some delta) f = (Inl MissingTeamId, f)"
    by (simp_all add: api_change_score_def)
  have found: "fst (change_score_loop tid delta ts) \<longleftrightarrow> (\<exists>t \<in> set ts. team_id t = tid \<and> \<not> hidden t)"
    by (rule change_score_loop_found)
  have absent: "api_change_score (Some tid) (Some delta) f = (Inl TeamNotFound, f)"
    if "tid \<noteq> []" "load_teams f = Inr ts" "\<not> (\<exists>t \<in> set ts. team_id t = tid \<and> \<not> hidden t)"
    using api_change_score_loaded [OF that(1,2), of delta] that(3) found by simp
  have present: "\<exists>i < length ts.
           team_id (ts ! i) = tid \<and> \<not> hidden (ts ! i) \<and>
           (\<forall>j < i. \<not> (team_id (ts ! j) = tid \<and> \<not> hidden (ts ! j))) \<and>
           (str_digits_ok (max 0 (score (ts ! i) + delta)) \<longrightarrow>
              api_change_score (Some tid) (Some delta) f =
                (Inr (), Teams (ts[i := (ts ! i)\<lparr>score := max 0 (score (ts ! i) + delta)\<rparr>])))"
    if "tid \<noteq> []" "load_teams f = Inr ts" "\<exists>t \<in> set ts. team_id t = tid \<and> \<not> hidden t"
  proof -
    from that(3) found have f: "fst (change_score_loop tid delta ts)" by simp
    from change_score_loop_update [OF this] obtain i where
      i: "i < length ts" "team_id (ts ! i) = tid" "\<not> hidden (ts ! i)"
         "\<forall>j < i. \<not> (team_id (ts ! j) = tid \<and> \<not> hidden (ts ! j))"
         "snd (change_score_loop tid delta ts) = ts[i := (ts ! i)\<lparr>score := max 0 (score (ts ! i) + delta)\<rparr>]"
      by blast
    have "api_change_score (Some tid) (Some delta) f =
            (Inr (), Teams (ts[i := (ts ! i)\<lparr>score := max 0 (score (ts ! i) + delta)\<rparr>]))"
      if ok: "str_digits_ok (max 0 (score (ts ! i) + delta))"
    proof -
      from \<open>load_teams f = Inr ts\<close> have "list_all (\<lambda>t. str_digits_ok (score t)) ts"
        by (rule load_teams_scores)
      then have "list_all (\<lambda>t. str_digits_ok (score t))
          (ts[i := (ts ! i)\<lparr>score := max 0 (score (ts ! i) + delta)\<rparr>])"
        using ok by (intro list_all_update) simp_all
      with api_change_score_loaded [OF \<open>tid \<noteq> []\<close> \<open>load_teams f = Inr ts\<close>, of delta] f i(5)
      show ?thesis by simp
    qed
    with i show ?thesis by blast
  qed
  from empty absent present show ?thesis by blast
qed

text \<open>
  A hidden team with the id does not count: the answer is "Team not found". With a
  hidden and a visible team of the same id, the visible one gets the new score,
  clamped at 0.
\<close>

theorem api_change_score_result_witness:
  "''a1'' \<noteq> [] \<and>
   load_teams (Teams [\<lparr>team_id = ''a1'', name = ''Alpha'', score = 3, hidden = True\<rparr>])
     = Inr [\<lparr>team_id = ''a1'', name = ''Alpha'', score = 3, hidden = True\<rparr>] \<and>
   \<not> (\<exists>t \<in> set [\<lparr>team_id = ''a1'', name = ''Alpha'', score = 3, hidden = True\<rparr>].
        team_id t = ''a1'' \<and> \<not> hidden t) \<and>
   api_change_score (Some ''a1'') (Some 2) (Teams [\<lparr>team_id = ''a1'', name = ''Alpha'', score = 3, hidden = True\<rparr>])
     = (Inl TeamNotFound, Teams [\<lparr>team_id = ''a1'', name = ''Alpha'', score = 3, hidden = True\<rparr>]) \<and>
   load_teams (Teams [\<lparr>team_id = ''a1'', name = ''Alpha'', score = 3, hidden = True\<rparr>,
                      \<lparr>team_id = ''a1'', name = ''Beta'', score = 4, hidden = False\<rparr>])
     = Inr [\<lparr>team_id = ''a1'', name = ''Alpha'', score = 3, hidden = True\<rparr>,
            \<lparr>team_id = ''a1'', name = ''Beta'', score = 4, hidden = False\<rparr>] \<and>
   (\<exists>t \<in> set [\<lparr>team_id = ''a1'', name = ''Alpha'', score = 3, hidden = True\<rparr>,
               \<lparr>team_id = ''a1'', name = ''Beta'', score = 4, hidden = False\<rparr>].
        team_id t = ''a1'' \<and> \<not> hidden t) \<and>
   str_digits_ok (max 0 (4 + (- 5))) \<and>
   api_change_score (Some ''a1'') (Some (- 5))
       (Teams [\<lparr>team_id = ''a1'', name = ''Alpha'', score = 3, hidden = True\<rparr>,
               \<lparr>team_id = ''a1'', name = ''Beta'', score = 4, hidden = False\<rparr>])
     = (Inr (), Teams [\<lparr>team_id = ''a1'', name = ''Alpha'', score = 3, hidden = True\<rparr>,
                       \<lparr>team_id = ''a1'', name = ''Beta'', score = 0, hidden = False\<rparr>])"
proof -
  let ?ts = "[\<lparr>team_id = ''a1'', name = ''Alpha'', score = 3, hidden = True\<rparr>]"
  let ?us = "[\<lparr>team_id = ''a1'', name = ''Alpha'', score = 3, hidden = True\<rparr>,
              \<lparr>team_id = ''a1'', name = ''Beta'', score = 4, hidden = False\<rparr>]"
  have ne: "''a1'' \<noteq> []" by simp
  have load_ts: "load_teams (Teams ?ts) = Inr ?ts" and load_us: "load_teams (Teams ?us) = Inr ?us"
    by (simp_all add: load_teams_def)
  have none: "\<not> (\<exists>t \<in> set ?ts. team_id t = ''a1'' \<and> \<not> hidden t)"
    and some: "\<exists>t \<in> set ?us. team_id t = ''a1'' \<and> \<not> hidden t"
    and digits: "str_digits_ok (max 0 (4 + (- 5)))"
    by simp_all
  from api_change_score_result [of 2 "Teams ?ts" "''a1''" ?ts] ne load_ts none
  have failed: "api_change_score (Some ''a1'') (Some 2) (Teams ?ts) = (Inl TeamNotFound, Teams ?ts)"
    by blast
  from api_change_score_result [of "- 5" "Teams ?us" "''a1''" ?us] ne load_us some
  obtain i where i: "i < length ?us" "\<not> hidden (?us ! i)"
    "str_digits_ok (max 0 (score (?us ! i) + (- 5))) \<longrightarrow>
       api_change_score (Some ''a1'') (Some (- 5)) (Teams ?us) =
       (Inr (), Teams (?us[i := (?us ! i)\<lparr>score := max 0 (score (?us ! i) + (- 5))\<rparr>]))"
    by blast
  from i(1,2) have "i = 1"
    by (cases i) simp_all
  with i(3) have changed: "api_change_score (Some ''a1'') (Some (- 5)) (Teams ?us) =
      (Inr (), Teams [\<lparr>team_id = ''a1'', name = ''Alpha'', score = 3, hidden = True\<rparr>,
                      \<lparr>team_id = ''a1'', name = ''Beta'', score = 0, hidden = False\<rparr>])"
    by simp
  from ne load_ts none failed load_us some digits changed show ?thesis by blast
qed

text \<open>
  The claim as the specification words it, for any id, fails at the empty id: no
  visible team has it, and the answer is "Missing team id" with status 400, not
  "Team not found".
\<close>

theorem api_change_score_empty_id_counterexample:
  "api_change_score (Some []) (Some 1)
       (Teams [\<lparr>team_id = ''a1'', name = ''Alpha'', score = 3, hidden = False\<rparr>])
     = (Inl MissingTeamId, Teams [\<lparr>team_id = ''a1'', name = ''Alpha'', score = 3, hidden = False\<rparr>]) \<and>
   MissingTeamId \<noteq> TeamNotFound \<and> status MissingTeamId = 400 \<and> status TeamNotFound = 404"
  by (simp add: api_change_score_def)

text \<open>
  C10. A successful \<open>api_change_score\<close> rewrites one position of the ledger, that of
  a team with the requested id. At that position the id, the name and the hidden flag
  are as before; every other position holds the team it held; the ledger has the
  same length, hence the same order.
\<close>

theorem api_change_score_frame:
  assumes "api_change_score data_id data_delta f = (Inr (), f')"
  shows "\<exists>ts ts'. load_teams f = Inr ts \<and> f' = Teams ts' \<and> load_teams f' = Inr ts' \<and>
           (\<exists>i < length ts.
              data_id = Some (team_id (ts ! i)) \<and>
              length ts' = length ts \<and>
              (\<forall>j < length ts. j \<noteq> i \<longrightarrow> ts' ! j = ts ! j) \<and>
              team_id (ts' ! i) = team_id (ts ! i) \<and>
              name (ts' ! i) = name (ts ! i) \<and>
              hidden (ts' ! i) = hidden (ts ! i))"
proof -
  from assms obtain tid delta where args: "data_id = Some tid" "data_delta = Some delta" "tid \<noteq> []"
    by (auto simp: api_change_score_def split: option.splits if_splits)
  from assms args obtain ts where load: "load_teams f = Inr ts"
    by (cases "load_teams f") (simp_all add: api_change_score_def)
  let ?ts' = "snd (change_score_loop tid delta ts)"
  from assms args api_change_score_loaded [OF args(3) load, of delta]
  have found: "fst (change_score_loop tid delta ts)"
    and ok: "list_all (\<lambda>t. str_digits_ok (score t)) ?ts'"
    and f': "f' = Teams ?ts'"
    by (simp_all split: if_splits)
  from ok have load': "load_teams (Teams ?ts') = Inr ?ts'"
    by (rule load_teams_Teams)
  from change_score_loop_update [OF found] obtain i where
    i: "i < length ts" "team_id (ts ! i) = tid"
       "?ts' = ts[i := (ts ! i)\<lparr>score := max 0 (score (ts ! i) + delta)\<rparr>]"
    by blast
  have "\<exists>i < length ts.
              data_id = Some (team_id (ts ! i)) \<and>
              length ?ts' = length ts \<and>
              (\<forall>j < length ts. j \<noteq> i \<longrightarrow> ?ts' ! j = ts ! j) \<and>
              team_id (?ts' ! i) = team_id (ts ! i) \<and>
              name (?ts' ! i) = name (ts ! i) \<and>
              hidden (?ts' ! i) = hidden (ts ! i)"
    using i args by (intro exI [of _ i]) simp
  with load f' load' show ?thesis by blast
qed

theorem api_change_score_frame_witness:
  "api_change_score (Some ''b2'') (Some (- 4))
     (Teams [\<lparr>team_id = ''a1'', name = ''Alpha'', score = 3, hidden = False\<rparr>,
             \<lparr>team_id = ''b2'', name = ''Beta'', score = 7, hidden = False\<rparr>])
     = (Inr (), Teams [\<lparr>team_id = ''a1'', name = ''Alpha'', score = 3, hidden = False\<rparr>,
                       \<lparr>team_id = ''b2'', name = ''Beta'', score = 3, hidden = False\<rparr>]) \<and>
   load_teams (Teams [\<lparr>team_id = ''a1'', name = ''Alpha'', score = 3, hidden = False\<rparr>,
                      \<lparr>team_id = ''b2'', name = ''Beta'', score = 3, hidden = False\<rparr>])
     = Inr [\<lparr>team_id = ''a1'', name = ''Alpha'', score = 3, hidden = False\<rparr>,
            \<lparr>team_id = ''b2'', name = ''Beta'', score = 3, hidden = False\<rparr>]"
proof -
  let ?f = "Teams [\<lparr>team_id = ''a1'', name = ''Alpha'', score = 3, hidden = False\<rparr>,
                   \<lparr>team_id = ''b2'', name = ''Beta'', score = 7, hidden = False\<rparr>]"
  let ?ts' = "[\<lparr>team_id = ''a1'', name = ''Alpha'', score = 3, hidden = False\<rparr>,
               \<lparr>team_id = ''b2'', name = ''Beta'', score = 3, hidden = False\<rparr>]"
  have run: "api_change_score (Some ''b2'') (Some (- 4)) ?f = (Inr (), Teams ?ts')"
    by (simp add: api_change_score_def load_teams_def save_teams_def)
  from api_change_score_frame [OF run]
  obtain ts' where "Teams ?ts' = Teams ts'" and "load_teams (Teams ?ts') = Inr ts'"
    by blast
  then have "load_teams (Teams ?ts') = Inr ?ts'"
    by simp
  with run show ?thesis by blast
qed

subsection \<open>Hiding a team\<close>

text \<open>
  C6. On a data file that loads, \<open>api_hide_team\<close> answers "Team not found" exactly
  when no team of the ledger, hidden or not, has the id. When a team has the id, the
  handler reports success and the first such team is hidden in the written ledger,
  whether or not it was hidden before; hiding it a second time reports success again
  and writes the same ledger. On a data file that does not load the exception
  escapes and the file stays as it is.
\<close>

theorem api_hide_team_idempotent:
  "(load_teams f = Inr ts \<longrightarrow>
     (fst (api_hide_team tid f) = Inl TeamNotFound \<longleftrightarrow> tid \<notin> set (map team_id ts)) \<and>
     (tid \<in> set (map team_id ts) \<longrightarrow>
        fst (api_hide_team tid f) = Inr () \<and>
        (\<exists>i < length ts.
            team_id (ts ! i) = tid \<and>
            snd (api_hide_team tid f) = Teams (ts[i := (ts ! i)\<lparr>hidden := True\<rparr>])) \<and>
        api_hide_team tid (snd (api_hide_team tid f)) = (Inr (), snd (api_hide_team tid f)))) \<and>
   (load_teams f = Inl x \<longrightarrow> api_hide_team tid f = (Inl (InternalServerError x), f))"
proof -
  let ?ts' = "snd (hide_loop tid ts)"
  have found: "fst (hide_loop tid ts) \<longleftrightarrow> tid \<in> set (map team_id ts)"
    by (rule hide_loop_found)
  have first: "fst (api_hide_team tid f) = Inl TeamNotFound \<longleftrightarrow> tid \<notin> set (map team_id ts)"
    if "load_teams f = Inr ts"
    using api_hide_team_loaded [OF that, of tid] found by simp
  have second: "fst (api_hide_team tid f) = Inr () \<and>
      (\<exists>i < length ts. team_id (ts ! i) = tid \<and>
          snd (api_hide_team tid f) = Teams (ts[i := (ts ! i)\<lparr>hidden := True\<rparr>])) \<and>
      api_hide_team tid (snd (api_hide_team tid f)) = (Inr (), snd (api_hide_team tid f))"
    if load: "load_teams f = Inr ts" and present: "tid \<in> set (map team_id ts)"
  proof -
    from present found have f: "fst (hide_loop tid ts)" by simp
    with api_hide_team_loaded [OF load, of tid]
    have res: "api_hide_team tid f = (Inr (), Teams ?ts')"
      by simp
    from hide_loop_update [OF f]
    have upd: "\<exists>i < length ts. team_id (ts ! i) = tid \<and> ?ts' = ts[i := (ts ! i)\<lparr>hidden := True\<rparr>]"
      by auto
    from load have "list_all (\<lambda>t. str_digits_ok (score t)) ?ts'"
      by (simp add: load_teams_scores hide_loop_digits)
    then have load': "load_teams (Teams ?ts') = Inr ?ts'"
      by (rule load_teams_Teams)
    have "hide_loop tid ?ts' = (True, ?ts')"
      using hide_loop_again [of tid ts] f by simp
    with api_hide_team_loaded [OF load', of tid]
    have "api_hide_team tid (Teams ?ts') = (Inr (), Teams ?ts')"
      by simp
    with res upd show ?thesis by simp
  qed
  have third: "api_hide_team tid f = (Inl (InternalServerError x), f)" if "load_teams f = Inl x"
    using that by (rule handlers_load_raises)
  from first second third show ?thesis by blast
qed

text \<open>Hiding a team that is hidden already.\<close>

theorem api_hide_team_idempotent_witness:
  "load_teams (Teams [\<lparr>team_id = ''a1'', name = ''Alpha'', score = 3, hidden = True\<rparr>])
     = Inr [\<lparr>team_id = ''a1'', name = ''Alpha'', score = 3, hidden = True\<rparr>] \<and>
   ''a1'' \<in> set (map team_id [\<lparr>team_id = ''a1'', name = ''Alpha'', score = 3, hidden = True\<rparr>]) \<and>
   fst (api_hide_team ''a1'' (Teams [\<lparr>team_id = ''a1'', name = ''Alpha'', score = 3, hidden = True\<rparr>])) = Inr () \<and>
   snd (api_hide_team ''a1'' (Teams [\<lparr>team_id = ''a1'', name = ''Alpha'', score = 3, hidden = True\<rparr>]))
     = Teams [\<lparr>team_id = ''a1'', name = ''Alpha'', score = 3, hidden = True\<rparr>] \<and>
   load_teams (Undecodable [CHR 0xFF]) = Inl UnicodeDecodeError \<and>
   api_hide_team ''a1'' (Undecodable [CHR 0xFF])
     = (Inl (InternalServerError UnicodeDecodeError), Undecodable [CHR 0xFF])"
proof -
  let ?ts = "[\<lparr>team_id = ''a1'', name = ''Alpha'', score = 3, hidden = True\<rparr>]"
  have load: "load_teams (Teams ?ts) = Inr ?ts"
    and raise: "load_teams (Undecodable [CHR 0xFF]) = Inl UnicodeDecodeError"
    by (simp_all add: load_teams_def)
  have present: "''a1'' \<in> set (map team_id ?ts)"
    by simp
  note hide = api_hide_team_idempotent [of "Teams ?ts" ?ts "''a1''"]
  from hide load present have ok: "fst (api_hide_team ''a1'' (Teams ?ts)) = Inr ()"
    by blast
  from hide load present obtain i where "i < length ?ts"
    and "snd (api_hide_team ''a1'' (Teams ?ts)) = Teams (?ts[i := (?ts ! i)\<lparr>hidden := True\<rparr>])"
    by blast
  then have same: "snd (api_hide_team ''a1'' (Teams ?ts)) = Teams ?ts"
    by simp
  from api_hide_team_idempotent [of "Undecodable [CHR 0xFF]" _ "''a1''" UnicodeDecodeError] raise
  have "api_hide_team ''a1'' (Undecodable [CHR 0xFF])
      = (Inl (InternalServerError UnicodeDecodeError), Undecodable [CHR 0xFF])"
    by blast
  with load present ok same raise show ?thesis by blast
qed

section \<open>The invariants of the ledger along a history\<close>















section \<open>What an error leaves in the data file\<close>

text \<open>
  The responses that the handlers make themselves come before \<open>save_teams\<close>: with
  any of them the data file is the one the handler found.
\<close>

lemma refusals_keep_file:
  "fst (api_add_team uuid4 data_name f) = Inl e \<Longrightarrow> e \<noteq> InternalServerError ValueError \<Longrightarrow>
     snd (api_add_team uuid4 data_name f) = f"
  "fst (api_change_score data_id data_delta f) = Inl e \<Longrightarrow> e \<noteq> InternalServerError ValueError \<Longrightarrow>
     snd (api_change_score data_id data_delta f) = f"
  "fst (api_hide_team tid f) = Inl e \<Longrightarrow> e \<noteq> InternalServerError ValueError \<Longrightarrow>
     snd (api_hide_team tid f) = f"
  by (auto simp: api_add_team_def api_change_score_def api_hide_team_def save_teams_def Let_def
      case_prod_unfold split: option.splits sum.splits if_splits)

text \<open>
  C9 fails on the code. A team has score 1 and the request adds \<open>10 ^ 4300 - 1\<close>.
  The new score has 4301 digits: \<open>save_teams\<close> has emptied the file when
  \<open>json.dump\<close> raises, the response is the one with status 500, and the data file
  holds the pieces written so far, which the next \<open>load_teams\<close> reads as the empty
  list. The request failed and the ledger is gone.
\<close>

theorem api_change_score_partial_write:
  "load_teams (Teams [\<lparr>team_id = ''a1'', name = ''Alpha'', score = 1, hidden = False\<rparr>])
     = Inr [\<lparr>team_id = ''a1'', name = ''Alpha'', score = 1, hidden = False\<rparr>] \<and>
   api_change_score (Some ''a1'') (Some (10 ^ int_max_str_digits - 1))
       (Teams [\<lparr>team_id = ''a1'', name = ''Alpha'', score = 1, hidden = False\<rparr>])
     = (Inl (InternalServerError ValueError),
        Partial [\<lparr>team_id = ''a1'', name = ''Alpha'', score = 10 ^ int_max_str_digits, hidden = False\<rparr>]) \<and>
   load_teams (Partial [\<lparr>team_id = ''a1'', name = ''Alpha'', score = 10 ^ int_max_str_digits, hidden = False\<rparr>])
     = Inr [] \<and>
   status (InternalServerError ValueError) = 500"
proof -
  let ?ts = "[\<lparr>team_id = ''a1'', name = ''Alpha'', score = 1, hidden = False\<rparr>]"
  have load: "load_teams (Teams ?ts) = Inr ?ts"
    by (simp add: load_teams_def)
  have "max 0 (1 + (10 ^ int_max_str_digits - 1)) = (10 :: int) ^ int_max_str_digits"
    by simp
  with api_change_score_loaded [of "''a1''" "Teams ?ts" ?ts "10 ^ int_max_str_digits - 1"] load
  have "api_change_score (Some ''a1'') (Some (10 ^ int_max_str_digits - 1)) (Teams ?ts)
     = (Inl (InternalServerError ValueError),
        Partial [\<lparr>team_id = ''a1'', name = ''Alpha'', score = 10 ^ int_max_str_digits, hidden = False\<rparr>])"
    by simp
  with load show ?thesis
    by (simp add: load_teams_def)
qed

section \<open>Runs of score changes\<close>

text \<open>
  In a ledger with unique ids, a score change for the id of a visible team updates
  that team, and a run of changes folds the clamped addition over the deltas, as
  long as the scores on the way can be written.
\<close>

lemma api_change_score_at:
  assumes "ids_unique ts" and "i < length ts" and "\<not> hidden (ts ! i)" and "team_id (ts ! i) \<noteq> []"
    and "list_all (\<lambda>t. str_digits_ok (score t)) ts"
    and "str_digits_ok (max 0 (score (ts ! i) + delta))"
  shows "api_change_score (Some (team_id (ts ! i))) (Some delta) (Teams ts) =
           (Inr (), Teams (ts[i := (ts ! i)\<lparr>score := max 0 (score (ts ! i) + delta)\<rparr>]))"
proof -
  let ?tid = "team_id (ts ! i)"
  from assms(5) have load: "load_teams (Teams ts) = Inr ts"
    by (rule load_teams_Teams)
  from assms(2,3) have "\<exists>t \<in> set ts. team_id t = ?tid \<and> \<not> hidden t"
    using nth_mem by blast
  then have found: "fst (change_score_loop ?tid delta ts)"
    by (simp add: change_score_loop_found)
  from change_score_loop_update [OF this] obtain k where
    k: "k < length ts" "team_id (ts ! k) = ?tid"
       "snd (change_score_loop ?tid delta ts) = ts[k := (ts ! k)\<lparr>score := max 0 (score (ts ! k) + delta)\<rparr>]"
    by blast
  from assms(1,2) k(1,2) have "k = i"
    unfolding ids_unique_def by (metis distinct_conv_nth length_map nth_map)
  with k(3) have upd: "snd (change_score_loop ?tid delta ts) =
      ts[i := (ts ! i)\<lparr>score := max 0 (score (ts ! i) + delta)\<rparr>]"
    by simp
  from assms(5,6) have "list_all (\<lambda>t. str_digits_ok (score t))
      (ts[i := (ts ! i)\<lparr>score := max 0 (score (ts ! i) + delta)\<rparr>])"
    by (intro list_all_update) simp_all
  with api_change_score_loaded [OF assms(4) load, of delta] found upd show ?thesis
    by simp
qed

lemma change_scores_at:
  assumes "ids_unique ts" and "i < length ts" and "\<not> hidden (ts ! i)" and "team_id (ts ! i) \<noteq> []"
    and "list_all (\<lambda>t. str_digits_ok (score t)) ts"
    and "\<forall>n \<le> length deltas. str_digits_ok (foldl (\<lambda>s d. max 0 (s + d)) (score (ts ! i)) (take n deltas))"
  shows "change_scores (team_id (ts ! i)) deltas (Teams ts) =
           (replicate (length deltas) (Inr ()),
            Teams (ts[i := (ts ! i)\<lparr>score := foldl (\<lambda>s d. max 0 (s + d)) (score (ts ! i)) deltas\<rparr>]))"
  using assms
proof (induction deltas arbitrary: ts)
  case Nil
  then show ?case by simp
next
  case (Cons delta deltas)
  let ?s = "max 0 (score (ts ! i) + delta)"
  let ?ts' = "ts[i := (ts ! i)\<lparr>score := ?s\<rparr>]"
  from Cons.prems(6) [rule_format, of 1] have first: "str_digits_ok ?s"
    by simp
  have step: "api_change_score (Some (team_id (ts ! i))) (Some delta) (Teams ts) = (Inr (), Teams ?ts')"
    using Cons.prems(1-5) first by (rule api_change_score_at)
  have ids: "map team_id ?ts' = map team_id ts"
    using Cons.prems(2) by (simp add: map_update list_update_same_conv)
  have at: "?ts' ! i = (ts ! i)\<lparr>score := ?s\<rparr>"
    using Cons.prems(2) by simp
  have digits: "list_all (\<lambda>t. str_digits_ok (score t)) ?ts'"
    using Cons.prems(5) first by (intro list_all_update) simp_all
  have rest: "\<forall>n \<le> length deltas.
      str_digits_ok (foldl (\<lambda>s d. max 0 (s + d)) (score (?ts' ! i)) (take n deltas))"
  proof (intro allI impI)
    fix n assume "n \<le> length deltas"
    with Cons.prems(6) [rule_format, of "Suc n"] at
    show "str_digits_ok (foldl (\<lambda>s d. max 0 (s + d)) (score (?ts' ! i)) (take n deltas))"
      by simp
  qed
  have "change_scores (team_id (?ts' ! i)) deltas (Teams ?ts') =
           (replicate (length deltas) (Inr ()),
            Teams (?ts'[i := (?ts' ! i)\<lparr>score := foldl (\<lambda>s d. max 0 (s + d)) (score (?ts' ! i)) deltas\<rparr>]))"
    using Cons.prems(1-4) digits rest
    by (intro Cons.IH) (simp_all add: ids at ids_unique_def)
  with step at show ?case by simp
qed

lemma clamped_nonneg:
  "0 \<le> s \<Longrightarrow> 0 \<le> foldl (\<lambda>s d. max 0 (s + d)) s (deltas :: int list)"
  by (induction deltas arbitrary: s) simp_all

lemma clamped_ge_sum:
  "s + sum_list deltas \<le> foldl (\<lambda>s d. max 0 (s + d)) s (deltas :: int list)"
proof (induction deltas arbitrary: s)
  case Nil
  then show ?case by simp
next
  case (Cons d deltas)
  have "s + sum_list (d # deltas) \<le> max 0 (s + d) + sum_list deltas" by simp
  also have "\<dots> \<le> foldl (\<lambda>s d. max 0 (s + d)) (max 0 (s + d)) deltas" by (rule Cons.IH)
  finally show ?case by simp
qed

lemma clamped_eq_sum:
  "\<forall>n \<le> length deltas. 0 \<le> s + sum_list (take n deltas) \<Longrightarrow>
   foldl (\<lambda>s d. max 0 (s + d)) s (deltas :: int list) = s + sum_list deltas"
proof (induction deltas arbitrary: s)
  case Nil
  then show ?case by simp
next
  case (Cons d deltas)
  from Cons.prems [rule_format, of 1] have first: "0 \<le> s + d" by simp
  have "\<forall>n \<le> length deltas. 0 \<le> (s + d) + sum_list (take n deltas)"
  proof (intro allI impI)
    fix n assume "n \<le> length deltas"
    with Cons.prems [rule_format, of "Suc n"] show "0 \<le> (s + d) + sum_list (take n deltas)"
      by (simp add: add.assoc)
  qed
  from Cons.IH [OF this] first show ?case by (simp add: add.assoc)
qed

lemma change_scores_append:
  "change_scores tid (ds @ es) f =
     (fst (change_scores tid ds f) @ fst (change_scores tid es (snd (change_scores tid ds f))),
      snd (change_scores tid es (snd (change_scores tid ds f))))"
  by (induction ds arbitrary: f) (simp_all split: prod.splits)

text \<open>
  C3, as the code has it. Take a visible team with a non-empty id and score 0 in a
  ledger with unique ids whose data file loads, and a run of score changes during
  which the score of the team never has more digits than \<open>json.dump\<close> can write.
  Every call of the run succeeds, and the score after the run is the deltas folded
  with \<open>\<lambda>s d. max 0 (s + d)\<close> from 0: each call clamps its own result. That score
  is never negative and never less than \<open>max 0 (sum_list deltas)\<close>, and it is equal
  to \<open>max 0 (sum_list deltas)\<close> when no partial sum of the deltas is negative. The
  statement holds for every list of deltas, hence after each call of a run.
\<close>

theorem change_scores_clamped:
  assumes "ids_unique ts" and "i < length ts" and "\<not> hidden (ts ! i)"
    and "team_id (ts ! i) \<noteq> []" and "score (ts ! i) = 0"
    and "load_teams (Teams ts) = Inr ts"
    and "\<forall>n \<le> length deltas. str_digits_ok (foldl (\<lambda>s d. max 0 (s + d)) 0 (take n deltas))"
  shows "change_scores (team_id (ts ! i)) deltas (Teams ts) =
           (replicate (length deltas) (Inr ()),
            Teams (ts[i := (ts ! i)\<lparr>score := foldl (\<lambda>s d. max 0 (s + d)) 0 deltas\<rparr>])) \<and>
         0 \<le> foldl (\<lambda>s d. max 0 (s + d)) 0 deltas \<and>
         max 0 (sum_list deltas) \<le> foldl (\<lambda>s d. max 0 (s + d)) 0 deltas \<and>
         ((\<forall>n \<le> length deltas. 0 \<le> sum_list (take n deltas)) \<longrightarrow>
            foldl (\<lambda>s d. max 0 (s + d)) 0 deltas = max 0 (sum_list deltas))"
proof -
  from assms(6) have digits: "list_all (\<lambda>t. str_digits_ok (score t)) ts"
    by (rule load_teams_scores)
  have run: "change_scores (team_id (ts ! i)) deltas (Teams ts) =
           (replicate (length deltas) (Inr ()),
            Teams (ts[i := (ts ! i)\<lparr>score := foldl (\<lambda>s d. max 0 (s + d)) 0 deltas\<rparr>]))"
    using change_scores_at [OF assms(1-4) digits, of deltas] assms(5,7) by simp
  have nonneg: "0 \<le> foldl (\<lambda>s d. max 0 (s + d)) 0 deltas"
    by (simp add: clamped_nonneg)
  have "sum_list deltas \<le> foldl (\<lambda>s d. max 0 (s + d)) 0 deltas"
    using clamped_ge_sum [of 0 deltas] by simp
  with nonneg have lower: "max 0 (sum_list deltas) \<le> foldl (\<lambda>s d. max 0 (s + d)) 0 deltas"
    by simp
  have exact: "foldl (\<lambda>s d. max 0 (s + d)) 0 deltas = max 0 (sum_list deltas)"
    if "\<forall>n \<le> length deltas. 0 \<le> sum_list (take n deltas)"
  proof -
    from that have "0 \<le> sum_list deltas" by auto
    moreover from that have "foldl (\<lambda>s d. max 0 (s + d)) 0 deltas = 0 + sum_list deltas"
      by (intro clamped_eq_sum) simp
    ultimately show ?thesis by simp
  qed
  from run nonneg lower exact show ?thesis by blast
qed

theorem change_scores_clamped_witness:
  "ids_unique [\<lparr>team_id = ''a1'', name = ''Alpha'', score = 0, hidden = False\<rparr>] \<and>
   load_teams (Teams [\<lparr>team_id = ''a1'', name = ''Alpha'', score = 0, hidden = False\<rparr>])
     = Inr [\<lparr>team_id = ''a1'', name = ''Alpha'', score = 0, hidden = False\<rparr>] \<and>
   list_all (\<lambda>n. str_digits_ok (foldl (\<lambda>s d. max 0 (s + d)) 0 (take n [4, - 3, 2 :: int]))) [0, 1, 2, 3] \<and>
   change_scores ''a1'' [4, - 3, 2]
      (Teams [\<lparr>team_id = ''a1'', name = ''Alpha'', score = 0, hidden = False\<rparr>]) =
     ([Inr (), Inr (), Inr ()], Teams [\<lparr>team_id = ''a1'', name = ''Alpha'', score = 3, hidden = False\<rparr>]) \<and>
   list_all (\<lambda>n. 0 \<le> sum_list (take n [4, - 3, 2 :: int])) [0, 1, 2, 3] \<and>
   max 0 (sum_list [4, - 3, 2 :: int]) = 3"
proof -
  let ?ts = "[\<lparr>team_id = ''a1'', name = ''Alpha'', score = 0, hidden = False\<rparr>]"
  have h: "ids_unique ?ts" "0 < length ?ts" "\<not> hidden (?ts ! 0)"
    "team_id (?ts ! 0) \<noteq> []" "score (?ts ! 0) = 0" "load_teams (Teams ?ts) = Inr ?ts"
    by (simp_all add: ids_unique_def load_teams_def)
  have digits: "\<forall>n \<le> length [4, - 3, 2 :: int].
      str_digits_ok (foldl (\<lambda>s d. max 0 (s + d)) 0 (take n [4, - 3, 2 :: int]))"
    by (simp add: take_Cons split: nat.splits)
  have prefixes: "\<forall>n \<le> length [4, - 3, 2 :: int]. 0 \<le> sum_list (take n [4, - 3, 2 :: int])"
    by (simp add: take_Cons split: nat.splits)
  note inst = change_scores_clamped [OF h digits]
  from inst prefixes have "foldl (\<lambda>s d. max 0 (s + d)) 0 [4, - 3, 2 :: int] = max 0 (sum_list [4, - 3, 2])"
    by blast
  moreover have sum: "max 0 (sum_list [4, - 3, 2 :: int]) = 3" by simp
  ultimately have run: "change_scores ''a1'' [4, - 3, 2] (Teams ?ts) =
     ([Inr (), Inr (), Inr ()], Teams [\<lparr>team_id = ''a1'', name = ''Alpha'', score = 3, hidden = False\<rparr>])"
    using inst by (simp add: numeral_3_eq_3)
  have d: "list_all (\<lambda>n. str_digits_ok (foldl (\<lambda>s d. max 0 (s + d)) 0 (take n [4, - 3, 2 :: int]))) [0, 1, 2, 3]"
    and p: "list_all (\<lambda>n. 0 \<le> sum_list (take n [4, - 3, 2 :: int])) [0, 1, 2, 3]"
    by (simp_all add: numeral_2_eq_2 numeral_3_eq_3)
  from h(1,6) d run p sum show ?thesis by blast
qed

text \<open>
  The claim as the specification words it fails when an earlier call was clamped:
  after the deltas -5 and 3 the score is 3, and \<open>max 0 (-5 + 3)\<close> is 0.
\<close>

theorem change_scores_sum_counterexample:
  "change_scores ''a1'' [- 5, 3]
      (Teams [\<lparr>team_id = ''a1'', name = ''Alpha'', score = 0, hidden = False\<rparr>]) =
     ([Inr (), Inr ()], Teams [\<lparr>team_id = ''a1'', name = ''Alpha'', score = 3, hidden = False\<rparr>]) \<and>
   max 0 (sum_list [- 5, 3 :: int]) = 0"
  by (simp add: api_change_score_def load_teams_def save_teams_def)

text \<open>
  Requests are served one at a time, so \<open>n\<close> requests to add 1 to the score of a
  visible team are a run of \<open>n\<close> changes; when the score was not negative and the
  raised score can still be written, they raise it by \<open>n\<close>.
\<close>

lemma clamped_increments:
  "0 \<le> s \<Longrightarrow> foldl (\<lambda>s d. max 0 (s + d)) s (replicate n 1) = s + int n"
  by (induction n arbitrary: s) simp_all

lemma change_scores_increments:
  assumes "ids_unique ts" and "i < length ts" and "\<not> hidden (ts ! i)"
    and "team_id (ts ! i) \<noteq> []" and "0 \<le> score (ts ! i)"
    and "load_teams (Teams ts) = Inr ts" and "str_digits_ok (score (ts ! i) + int n)"
  shows "change_scores (team_id (ts ! i)) (replicate n 1) (Teams ts) =
           (replicate n (Inr ()), Teams (ts[i := (ts ! i)\<lparr>score := score (ts ! i) + int n\<rparr>]))"
proof -
  from assms(6) have digits: "list_all (\<lambda>t. str_digits_ok (score t)) ts"
    by (rule load_teams_scores)
  have "\<forall>k \<le> length (replicate n (1 :: int)).
      str_digits_ok (foldl (\<lambda>s d. max 0 (s + d)) (score (ts ! i)) (take k (replicate n 1)))"
  proof (intro allI impI)
    fix k assume "k \<le> length (replicate n (1 :: int))"
    then have k: "k \<le> n" by simp
    then have "take k (replicate n (1 :: int)) = replicate k 1"
      by (simp add: min_def)
    with assms(5) have "foldl (\<lambda>s d. max 0 (s + d)) (score (ts ! i)) (take k (replicate n 1)) =
        score (ts ! i) + int k"
      by (simp add: clamped_increments)
    moreover from assms(5,7) k have "str_digits_ok (score (ts ! i) + int k)"
      by (simp add: str_digits_ok_def)
    ultimately show "str_digits_ok (foldl (\<lambda>s d. max 0 (s + d)) (score (ts ! i)) (take k (replicate n 1)))"
      by simp
  qed
  from change_scores_at [OF assms(1-4) digits this] assms(5) show ?thesis
    by (simp add: clamped_increments)
qed

section \<open>A data file that is not the JSON text of a ledger\<close>

text \<open>
  C2, as the code has it. \<open>load_teams\<close> catches \<open>JSONDecodeError\<close> and returns the
  empty list: a data file whose text is not JSON is read as the empty ledger, just
  as a missing one, and no handler reports that the file is corrupt. The list of
  teams is empty, a score change or a hide fails and leaves the file as it is, and an
  \<open>api_add_team\<close> with a name that is not blank succeeds and overwrites the file with
  a ledger of one team. A data file whose bytes are not UTF-8 is another matter:
  \<open>UnicodeDecodeError\<close> is not caught, every handler that loads answers with
  status 500, and the file stays as it is.
\<close>

theorem malformed_file_read_as_empty:
  "load_teams (Malformed content) = Inr [] \<and>
   load_teams (Malformed content) = load_teams Missing \<and>
   api_get_teams (Malformed content) = (Inr [], Malformed content) \<and>
   fst (api_add_team uuid4 data_name (Malformed content)) = fst (api_add_team uuid4 data_name Missing) \<and>
   (strip nm \<noteq> [] \<longrightarrow>
      api_add_team uuid4 (Some nm) (Malformed content) =
        (Inr \<lparr>team_id = uuid4, name = strip nm, score = 0, hidden = False\<rparr>,
         Teams [\<lparr>team_id = uuid4, name = strip nm, score = 0, hidden = False\<rparr>])) \<and>
   (\<exists>e. api_change_score data_id data_delta (Malformed content) = (Inl e, Malformed content) \<and>
        e \<in> {InvalidDelta, MissingTeamId, TeamNotFound}) \<and>
   api_hide_team tid (Malformed content) = (Inl TeamNotFound, Malformed content) \<and>
   load_teams (Undecodable bytes) = Inl UnicodeDecodeError \<and>
   api_get_teams (Undecodable bytes) = (Inl (InternalServerError UnicodeDecodeError), Undecodable bytes) \<and>
   (strip nm \<noteq> [] \<longrightarrow>
      api_add_team uuid4 (Some nm) (Undecodable bytes) =
        (Inl (InternalServerError UnicodeDecodeError), Undecodable bytes)) \<and>
   (tid \<noteq> [] \<longrightarrow>
      api_change_score (Some tid) (Some delta) (Undecodable bytes) =
        (Inl (InternalServerError UnicodeDecodeError), Undecodable bytes)) \<and>
   api_hide_team tid (Undecodable bytes) = (Inl (InternalServerError UnicodeDecodeError), Undecodable bytes)"
proof -
  have m: "load_teams (Malformed content) = Inr []" and e: "load_teams Missing = Inr []"
    and u: "load_teams (Undecodable bytes) = Inl UnicodeDecodeError"
    by (simp_all add: load_teams_def)
  have get: "api_get_teams (Malformed content) = (Inr [], Malformed content)"
    using api_get_teams_loaded [OF m] by simp
  have add_same: "fst (api_add_team uuid4 data_name (Malformed content)) = fst (api_add_team uuid4 data_name Missing)"
    by (simp add: api_add_team_def m e save_teams_def Let_def)
  have add: "api_add_team uuid4 (Some nm) (Malformed content) =
        (Inr \<lparr>team_id = uuid4, name = strip nm, score = 0, hidden = False\<rparr>,
         Teams [\<lparr>team_id = uuid4, name = strip nm, score = 0, hidden = False\<rparr>])"
    if "strip nm \<noteq> []"
    using api_add_team_loaded [OF that m, of uuid4] by simp
  have change: "\<exists>e. api_change_score data_id data_delta (Malformed content) = (Inl e, Malformed content) \<and>
        e \<in> {InvalidDelta, MissingTeamId, TeamNotFound}"
    by (simp add: api_change_score_def m split: option.splits)
  have hide: "api_hide_team tid (Malformed content) = (Inl TeamNotFound, Malformed content)"
    using api_hide_team_loaded [OF m, of tid] by simp
  note raised = handlers_load_raises [OF u]
  from m e get add_same add change hide u raised show ?thesis
    by simp
qed

theorem malformed_file_read_as_empty_witness:
  "strip ''Alpha'' \<noteq> [] \<and>
   api_add_team ''a1'' (Some ''Alpha'') (Malformed ''[{id: z'') =
     (Inr \<lparr>team_id = ''a1'', name = ''Alpha'', score = 0, hidden = False\<rparr>,
      Teams [\<lparr>team_id = ''a1'', name = ''Alpha'', score = 0, hidden = False\<rparr>]) \<and>
   api_add_team ''a1'' (Some ''Alpha'') (Undecodable [CHR 0xFF, CHR 0xFE]) =
     (Inl (InternalServerError UnicodeDecodeError), Undecodable [CHR 0xFF, CHR 0xFE]) \<and>
   ''a1'' \<noteq> [] \<and>
   api_change_score (Some ''a1'') (Some 1) (Undecodable [CHR 0xFF, CHR 0xFE]) =
     (Inl (InternalServerError UnicodeDecodeError), Undecodable [CHR 0xFF, CHR 0xFE])"
proof -
  have kept: "strip ''Alpha'' = ''Alpha''" by code_simp
  then have ne: "strip ''Alpha'' \<noteq> []" by simp
  have id: "''a1'' \<noteq> []" by simp
  note inst = malformed_file_read_as_empty
    [of "''[{id: z''" "''a1''" _ "''Alpha''" _ _ "''a1''" "[CHR 0xFF, CHR 0xFE]" 1]
  from inst ne kept
  have 1: "api_add_team ''a1'' (Some ''Alpha'') (Malformed ''[{id: z'') =
     (Inr \<lparr>team_id = ''a1'', name = ''Alpha'', score = 0, hidden = False\<rparr>,
      Teams [\<lparr>team_id = ''a1'', name = ''Alpha'', score = 0, hidden = False\<rparr>])"
    by simp
  from inst ne
  have 2: "api_add_team ''a1'' (Some ''Alpha'') (Undecodable [CHR 0xFF, CHR 0xFE]) =
     (Inl (InternalServerError UnicodeDecodeError), Undecodable [CHR 0xFF, CHR 0xFE])"
    by blast
  from inst id
  have 3: "api_change_score (Some ''a1'') (Some 1) (Undecodable [CHR 0xFF, CHR 0xFE]) =
     (Inl (InternalServerError UnicodeDecodeError), Undecodable [CHR 0xFF, CHR 0xFE])"
    by blast
  from ne 1 2 id 3 show ?thesis by blast
qed

text \<open>
  The claim as the specification words it fails: on a data file whose text is not
  JSON \<open>load_teams\<close> returns the empty list, and adding a team succeeds and replaces
  the content of the file.
\<close>

theorem malformed_file_counterexample:
  "load_teams (Malformed ''[{id: z'') = Inr [] \<and>
   api_add_team ''a1'' (Some ''Alpha'') (Malformed ''[{id: z'') =
     (Inr \<lparr>team_id = ''a1'', name = ''Alpha'', score = 0, hidden = False\<rparr>,
      Teams [\<lparr>team_id = ''a1'', name = ''Alpha'', score = 0, hidden = False\<rparr>])"
proof -
  have "strip ''Alpha'' = ''Alpha''" by code_simp
  then show ?thesis
    by (simp add: api_add_team_def load_teams_def save_teams_def Let_def)
qed

end
